theory Spec2Isabelle
  imports Main
begin

section \<open>The world the script acts on\<close>

text \<open>
  \<^verbatim>\<open>tools/sync/projadm.py\<close> is a sequence of effects: calls to the web
  application, one subprocess, temporary files, one file copy, one recursive
  removal, and log lines. The model threads a \<open>world\<close> through every
  function and appends an \<open>event\<close> to its \<open>trace\<close> at every call of an
  effectful library function or collaborator, so that which effects happen, and
  in which order, can be read off the result.

  Python text is a \<open>string\<close>; each \<open>char\<close> stands for one code point
  U+0000..U+00FF. File contents are byte strings, also \<open>char list\<close>.
\<close>

type_synonym bytes = "char list"

text \<open>
  A path is an ordinary string, or the name of a file made by
  \<^verbatim>\<open>tempfile.NamedTemporaryFile()\<close>: \<open>Temp n\<close> is the name of the
  \<open>n\<close>-th temporary file of the run. The library creates it exclusively
  (\<^verbatim>\<open>O_EXCL\<close>), so it never coincides with a path that exists already.
\<close>

datatype path = Named string | Temp nat

text \<open>
  What a call ends with: a value, \<^verbatim>\<open>sys.exit(n)\<close>, or an exception
  that nothing in the script catches.
\<close>

datatype 'a result = Return 'a | Exit int | Raise string

text \<open>
  A \<open>Log\<close> event is a call of the logger. Whether the line is printed
  depends on the level that \<^verbatim>\<open>--debug\<close> sets, which the model leaves out.
\<close>

datatype level = Debug | Info | Warning | Error

text \<open>
  The argument of a logger call: a formatted message, a \<^verbatim>\<open>Command\<close>
  object (\<^verbatim>\<open>logger.info(cmd)\<close>), or the output of a command
  (\<^verbatim>\<open>logger.error(cmd.getoutput())\<close>). A formatted message is kept as the
  format string and the arguments of \<^verbatim>\<open>format\<close>.
\<close>

datatype fmtarg = S string | P path

datatype logarg = Msg string "fmtarg list" | CmdObj "path list" | Output "string list"

datatype netcall =
    AddProject string string
  | DeleteProject string string
  | GetConfiguration string
  | GetConfigValue string string
  | SetConfiguration string string

datatype event =
    Log level logarg
  | Net netcall
  | Exec "path list"
  | TmpCreate nat
  | TmpWrite nat bytes
  | TmpClose nat
  | CopyFile path path
  | RmTree string
  | PrintHelp
  | LockAcquire
  | LockRelease

text \<open>
  An open temporary file is a buffered binary file object
  (\<^verbatim>\<open>NamedTemporaryFile\<close> opens it in mode \<^verbatim>\<open>w+b\<close> with the default
  buffering): \<open>on_disk\<close> is what a reader that opens the file by name sees,
  \<open>pending\<close> is what \<^verbatim>\<open>write\<close> has put into the buffer of the object and
  has not reached the file yet.
\<close>

record tmpfile =
  on_disk :: bytes
  pending :: bytes

record 'svc world =
  files :: "string \<rightharpoonup> bytes"
  dirs :: "string set"
  unwritable :: "string set"
  tmpfiles :: "nat \<rightharpoonup> tmpfile"
  tmp_next :: nat
  buffer_size :: nat
  lock_held :: bool
  svc :: "'svc"
  trace :: "event list"

text \<open>
  \<open>files\<close> and \<open>dirs\<close> are the regular files and the directories that exist,
  \<open>unwritable\<close> the paths the process may not open for writing,
  \<open>buffer_size\<close> the size of the buffer of a binary file object
  (\<^verbatim>\<open>io.DEFAULT_BUFFER_SIZE\<close> or the block size of the file system),
  \<open>lock_held\<close> whether another instance holds the file lock, \<open>svc\<close> the state
  of the web application.
\<close>

datatype cmdstate = FINISHED | NOT_FINISHED

text \<open>
  The collaborators of the script that are imported from the modules
  \<^verbatim>\<open>opengrok\<close>, \<^verbatim>\<open>command\<close> and \<^verbatim>\<open>utils\<close>. They are parameters of
  the model. The two lookups read the state of the web application; the three
  other service calls may change it. \<open>run_command\<close> is
  \<^verbatim>\<open>Command.execute\<close> followed by \<^verbatim>\<open>getstate\<close>, \<^verbatim>\<open>getretcode\<close>
  and \<^verbatim>\<open>getoutput\<close>: the subprocess sees the files as they are on disk.
  \<open>get_config_value\<close> returns a list of values, as the interface of the
  service is described.
\<close>

record 'svc collab =
  get_configuration :: "string \<Rightarrow> 'svc \<Rightarrow> string option result"
  set_configuration :: "bytes option \<Rightarrow> string \<Rightarrow> 'svc \<Rightarrow> unit result \<times> 'svc"
  add_project :: "string \<Rightarrow> string \<Rightarrow> 'svc \<Rightarrow> unit result \<times> 'svc"
  delete_project :: "string \<Rightarrow> string \<Rightarrow> 'svc \<Rightarrow> unit result \<times> 'svc"
  get_config_value :: "string \<Rightarrow> string \<Rightarrow> 'svc \<Rightarrow> string list option result"
  run_command :: "path list \<Rightarrow> (path \<Rightarrow> bytes option) \<Rightarrow> cmdstate \<times> int \<times> string list"
  get_command :: "string option \<Rightarrow> string \<Rightarrow> string option"

section \<open>Sequencing\<close>

type_synonym ('a, 'svc) prog = "'svc world \<Rightarrow> 'a result \<times> 'svc world"

definition ret :: "'a \<Rightarrow> ('a, 'svc) prog" where
  "ret x w = (Return x, w)"

definition sys_exit :: "int \<Rightarrow> ('a, 'svc) prog" where
  "sys_exit n w = (Exit n, w)"

definition raise :: "string \<Rightarrow> ('a, 'svc) prog" where
  "raise e w = (Raise e, w)"

definition bnd :: "('a, 'svc) prog \<Rightarrow> ('a \<Rightarrow> ('b, 'svc) prog) \<Rightarrow> ('b, 'svc) prog" where
  "bnd m f w =
     (case m w of
        (Return x, w') \<Rightarrow> f x w'
      | (Exit n, w') \<Rightarrow> (Exit n, w')
      | (Raise e, w') \<Rightarrow> (Raise e, w'))"

text \<open>Appending an event to the trace.\<close>

definition emit :: "event \<Rightarrow> 'svc world \<Rightarrow> 'svc world" where
  "emit e w = trace_update (\<lambda>t. t @ [e]) w"

definition log :: "level \<Rightarrow> logarg \<Rightarrow> (unit, 'svc) prog" where
  "log l a w = (Return (), emit (Log l a) w)"

text \<open>A \<^verbatim>\<open>for\<close> loop over a list, left when a step exits or raises.\<close>

fun for_each :: "'a list \<Rightarrow> ('a \<Rightarrow> (unit, 'svc) prog) \<Rightarrow> (unit, 'svc) prog" where
  "for_each [] f = ret ()"
| "for_each (x # xs) f = bnd (f x) (\<lambda>_. for_each xs f)"

section \<open>Library functions\<close>

subsection \<open>Text\<close>

text \<open>
  \<^verbatim>\<open>''.join(x)\<close> concatenates the items of \<open>x\<close>: the characters of a
  string, the elements of a list of strings.
\<close>

definition join_chars :: "string \<Rightarrow> string" where
  "join_chars s = concat (map (\<lambda>c. [c]) s)"

definition join_lines :: "string list \<Rightarrow> string" where
  "join_lines ls = concat ls"

text \<open>\<^verbatim>\<open>bytearray(s, "UTF-8")\<close>, for code points below 256.\<close>

definition utf8_char :: "char \<Rightarrow> bytes" where
  "utf8_char c =
     (let n = (of_char c :: nat)
      in if n < 128 then [c] else [char_of (192 + n div 64), char_of (128 + n mod 64)])"

definition utf8 :: "string \<Rightarrow> bytes" where
  "utf8 s = concat (map utf8_char s)"

text \<open>
  \<^verbatim>\<open>str.isspace\<close> on one character, for code points below 256, and
  \<^verbatim>\<open>str.rstrip()\<close>.
\<close>

definition isspace :: "char \<Rightarrow> bool" where
  "isspace c =
     (let n = (of_char c :: nat)
      in (9 \<le> n \<and> n \<le> 13) \<or> (28 \<le> n \<and> n \<le> 32) \<or> n = 133 \<or> n = 160)"

definition rstrip :: "string \<Rightarrow> string" where
  "rstrip s = rev (dropWhile isspace (rev s))"

text \<open>\<^verbatim>\<open>os.path.join\<close> of \<^verbatim>\<open>posixpath\<close>.\<close>

definition join2 :: "string \<Rightarrow> string \<Rightarrow> string" where
  "join2 p b =
     (if b \<noteq> [] \<and> hd b = CHR ''/'' then b
      else if p = [] \<or> last p = CHR ''/'' then p @ b
      else p @ ''/'' @ b)"

definition path_join :: "string \<Rightarrow> string list \<Rightarrow> string" where
  "path_join a ps = foldl join2 a ps"

text \<open>Truth value of a string that may be \<^verbatim>\<open>None\<close>.\<close>

fun truthy :: "string option \<Rightarrow> bool" where
  "truthy None = False"
| "truthy (Some s) = (s \<noteq> [])"

subsection \<open>Files\<close>

definition isfile :: "string \<Rightarrow> 'svc world \<Rightarrow> bool" where
  "isfile p w = (files w p \<noteq> None)"

definition isdir :: "string \<Rightarrow> 'svc world \<Rightarrow> bool" where
  "isdir p w = (p \<in> dirs w)"

text \<open>
  What a process that opens \<open>p\<close> by name reads: the content of a regular
  file, and of a temporary file the part that has reached the disk.
\<close>

definition disk_view :: "(string \<rightharpoonup> bytes) \<Rightarrow> (nat \<rightharpoonup> tmpfile) \<Rightarrow> path \<Rightarrow> bytes option" where
  "disk_view fs ts p =
     (case p of
        Named s \<Rightarrow> fs s
      | Temp n \<Rightarrow> map_option on_disk (ts n))"

definition read_disk :: "'svc world \<Rightarrow> path \<Rightarrow> bytes option" where
  "read_disk w = disk_view (files w) (tmpfiles w)"

definition write_disk :: "path \<Rightarrow> bytes \<Rightarrow> 'svc world \<Rightarrow> 'svc world" where
  "write_disk p d w =
     (case p of
        Named s \<Rightarrow> w\<lparr>files := (files w)(s \<mapsto> d)\<rparr>
      | Temp n \<Rightarrow> w\<lparr>tmpfiles := (tmpfiles w)(n \<mapsto> \<lparr>on_disk = d, pending = []\<rparr>)\<rparr>)"

text \<open>
  \<^verbatim>\<open>tempfile.NamedTemporaryFile()\<close>: a new, empty file with a name of its
  own.
\<close>

definition tmp_create :: "(nat, 'svc) prog" where
  "tmp_create w =
     (let n = tmp_next w
      in (Return n,
          emit (TmpCreate n)
            (w\<lparr>tmpfiles := (tmpfiles w)(n \<mapsto> \<lparr>on_disk = [], pending = []\<rparr>),
               tmp_next := Suc n\<rparr>)))"

text \<open>
  \<^verbatim>\<open>f.write(data)\<close> on the buffered file object (CPython,
  \<^verbatim>\<open>Modules/_io/bufferedio.c\<close>): data that fits into the free part of the
  buffer is only buffered. Otherwise the buffer is flushed; data longer than the
  buffer is then written to the file, shorter data is put into the empty
  buffer.
\<close>

definition buffered_write :: "nat \<Rightarrow> bytes \<Rightarrow> tmpfile \<Rightarrow> tmpfile" where
  "buffered_write bs d f =
     (if length d \<le> bs - length (pending f) then f\<lparr>pending := pending f @ d\<rparr>
      else if bs < length d then \<lparr>on_disk = on_disk f @ pending f @ d, pending = []\<rparr>
      else \<lparr>on_disk = on_disk f @ pending f, pending = d\<rparr>)"

definition tmp_write :: "nat \<Rightarrow> bytes \<Rightarrow> (unit, 'svc) prog" where
  "tmp_write n d w =
     (case tmpfiles w n of
        None \<Rightarrow> (Raise ''ValueError'', emit (TmpWrite n d) w)
      | Some f \<Rightarrow>
          (Return (),
           emit (TmpWrite n d)
             (w\<lparr>tmpfiles := (tmpfiles w)(n \<mapsto> buffered_write (buffer_size w) d f)\<rparr>)))"

text \<open>Closing the file object flushes the buffer and removes the file.\<close>

definition tmp_close :: "nat \<Rightarrow> 'svc world \<Rightarrow> 'svc world" where
  "tmp_close n w = emit (TmpClose n) (w\<lparr>tmpfiles := (tmpfiles w)(n := None)\<rparr>)"

text \<open>
  \<^verbatim>\<open>with tempfile.NamedTemporaryFile() as f: body\<close>. The file is closed
  however the body ends.
\<close>

definition with_tmp :: "(nat \<Rightarrow> ('a, 'svc) prog) \<Rightarrow> ('a, 'svc) prog" where
  "with_tmp body w =
     (case tmp_create w of
        (Return n, w1) \<Rightarrow> (case body n w1 of (r, w2) \<Rightarrow> (r, tmp_close n w2))
      | (Exit k, w1) \<Rightarrow> (Exit k, w1)
      | (Raise e, w1) \<Rightarrow> (Raise e, w1))"

text \<open>
  \<^verbatim>\<open>shutil.copyfile(src, dst)\<close>: the source is opened by name and read
  from the disk, the destination is opened for writing and replaced as a whole.
  \<open>OSError\<close> stands for the subclasses other than \<open>PermissionError\<close>
  (same file, source missing, destination a directory). The directory of the
  destination is taken to exist: the script copies only to a path that has
  passed \<^verbatim>\<open>path.isfile\<close>.
\<close>

datatype copy_outcome = Copied | PermissionError | OSError

definition is_dir_path :: "'svc world \<Rightarrow> path \<Rightarrow> bool" where
  "is_dir_path w p = (case p of Named s \<Rightarrow> s \<in> dirs w | Temp n \<Rightarrow> False)"

definition write_denied :: "'svc world \<Rightarrow> path \<Rightarrow> bool" where
  "write_denied w p = (case p of Named s \<Rightarrow> s \<in> unwritable w | Temp n \<Rightarrow> False)"

definition copyfile :: "path \<Rightarrow> path \<Rightarrow> 'svc world \<Rightarrow> copy_outcome \<times> 'svc world" where
  "copyfile src dst w =
     (let w1 = emit (CopyFile src dst) w
      in case read_disk w src of
           None \<Rightarrow> (OSError, w1)
         | Some d \<Rightarrow>
             if src = dst then (OSError, w1)
             else if is_dir_path w dst then (OSError, w1)
             else if write_denied w dst then (PermissionError, w1)
             else (Copied, write_disk dst d w1))"

subsection \<open>Removing a directory tree\<close>

text \<open>
  The names in \<open>files\<close> and \<open>dirs\<close> are canonical: the components of a
  path joined by single slashes, after a leading slash when the path is absolute;
  a relative name is relative to the current directory. The root and the current
  directory always exist. \<open>split_path\<close> is \<^verbatim>\<open>p.split('/')\<close>; \<open>parts\<close>
  leaves out the empty components and the dots that the system skips.
\<close>

fun split_path :: "string \<Rightarrow> string list" where
  "split_path [] = [[]]"
| "split_path (c # cs) =
     (if c = CHR ''/'' then [] # split_path cs
      else (case split_path cs of x # xs \<Rightarrow> (c # x) # xs | [] \<Rightarrow> [[c]]))"

definition parts :: "string \<Rightarrow> string list" where
  "parts p = filter (\<lambda>c. c \<noteq> [] \<and> c \<noteq> ''.'') (split_path p)"

definition absolute :: "string \<Rightarrow> bool" where
  "absolute p = (p \<noteq> [] \<and> hd p = CHR ''/'')"

fun glue :: "string list \<Rightarrow> string" where
  "glue [] = []"
| "glue [c] = c"
| "glue (c # cs) = c @ ''/'' @ glue cs"

definition name_of :: "bool \<Rightarrow> string list \<Rightarrow> string" where
  "name_of ab st = (if ab then ''/'' @ glue st else glue st)"

text \<open>
  The system follows a path one component at a time: a name must be a
  directory that exists, \<^verbatim>\<open>..\<close> leads to the parent, and the parent of the
  root is the root. The parent of the current directory is outside the model.
\<close>

fun walk :: "(string list \<Rightarrow> bool) \<Rightarrow> bool \<Rightarrow> string list \<Rightarrow> string list \<Rightarrow> string list option" where
  "walk ok ab st [] = Some st"
| "walk ok ab st (c # cs) =
     (if c = ''..''
      then (if st = [] then (if ab then walk ok ab [] cs else None)
            else walk ok ab (butlast st) cs)
      else if ok (st @ [c]) then walk ok ab (st @ [c]) cs
      else None)"

definition resolve_dir :: "'svc world \<Rightarrow> string \<Rightarrow> string list option" where
  "resolve_dir w p =
     (if p = [] then None
      else walk (\<lambda>st. name_of (absolute p) st \<in> dirs w) (absolute p) [] (parts p))"

text \<open>
  Whether the name \<open>p\<close> lies in the directory with the components \<open>st\<close>
  (\<open>inside\<close>) or is that directory.
\<close>

definition inside :: "bool \<Rightarrow> string list \<Rightarrow> string \<Rightarrow> bool" where
  "inside ab st p =
     (absolute p = ab \<and> length st < length (parts p) \<and> take (length st) (parts p) = st)"

definition at_or_inside :: "bool \<Rightarrow> string list \<Rightarrow> string \<Rightarrow> bool" where
  "at_or_inside ab st p =
     (absolute p = ab \<and> p \<noteq> [] \<and> take (length st) (parts p) = st)"

text \<open>
  \<^verbatim>\<open>os.rmdir(p)\<close> at the end of \<^verbatim>\<open>rmtree\<close> fails on a path whose last
  component is a dot or two dots, and on the root.
\<close>

definition rmdir_ok :: "string \<Rightarrow> bool" where
  "rmdir_ok p =
     (case rev (filter (\<lambda>c. c \<noteq> []) (split_path p)) of
        [] \<Rightarrow> False
      | c # cs \<Rightarrow> c \<noteq> ''.'' \<and> c \<noteq> ''..'')"

text \<open>
  \<^verbatim>\<open>shutil.rmtree(p)\<close>. A path that does not lead to a directory raises and
  nothing is removed. Otherwise everything in the directory is removed, and
  then the directory itself; where that last step fails, the call raises and the
  directory stays, empty.
\<close>

definition rmtree :: "string \<Rightarrow> (unit, 'svc) prog" where
  "rmtree p w =
     (let w1 = emit (RmTree p) w
      in case resolve_dir w p of
           None \<Rightarrow> (Raise ''OSError'', w1)
         | Some st \<Rightarrow>
             if rmdir_ok p
             then (Return (),
                   w1\<lparr>files := (\<lambda>q. if at_or_inside (absolute p) st q then None else files w q),
                      dirs := {q \<in> dirs w. \<not> at_or_inside (absolute p) st q}\<rparr>)
             else (Raise ''OSError'',
                   w1\<lparr>files := (\<lambda>q. if inside (absolute p) st q then None else files w q),
                      dirs := {q \<in> dirs w. \<not> inside (absolute p) st q}\<rparr>))"

subsection \<open>Calls to the collaborators\<close>

definition call_get_configuration ::
  "'svc collab \<Rightarrow> string \<Rightarrow> (string option, 'svc) prog" where
  "call_get_configuration c uri w =
     (get_configuration c uri (svc w), emit (Net (GetConfiguration uri)) w)"

definition call_get_config_value ::
  "'svc collab \<Rightarrow> string \<Rightarrow> string \<Rightarrow> (string list option, 'svc) prog" where
  "call_get_config_value c name uri w =
     (get_config_value c name uri (svc w), emit (Net (GetConfigValue name uri)) w)"

definition call_add_project :: "'svc collab \<Rightarrow> string \<Rightarrow> string \<Rightarrow> (unit, 'svc) prog" where
  "call_add_project c project uri w =
     (case add_project c project uri (svc w) of
        (r, s) \<Rightarrow> (r, emit (Net (AddProject project uri)) (w\<lparr>svc := s\<rparr>)))"

definition call_delete_project :: "'svc collab \<Rightarrow> string \<Rightarrow> string \<Rightarrow> (unit, 'svc) prog" where
  "call_delete_project c project uri w =
     (case delete_project c project uri (svc w) of
        (r, s) \<Rightarrow> (r, emit (Net (DeleteProject project uri)) (w\<lparr>svc := s\<rparr>)))"

definition call_set_configuration :: "'svc collab \<Rightarrow> string \<Rightarrow> string \<Rightarrow> (unit, 'svc) prog" where
  "call_set_configuration c file uri w =
     (case set_configuration c (files w file) uri (svc w) of
        (r, s) \<Rightarrow> (r, emit (Net (SetConfiguration file uri)) (w\<lparr>svc := s\<rparr>)))"

section \<open>The functions of projadm.py\<close>

text \<open>
  \<^verbatim>\<open>exec_command(doit, logger, cmd, msg)\<close>. The result is \<open>None\<close> where the
  source returns nothing.
\<close>

definition exec_command ::
  "'svc collab \<Rightarrow> bool \<Rightarrow> path list \<Rightarrow> string \<Rightarrow> (string list option, 'svc) prog" where
  "exec_command c doit cmd msg w =
     (if \<not> doit then bnd (log Info (CmdObj cmd)) (\<lambda>_. ret None) w
      else
        (case run_command c cmd (read_disk w) of
           (st, rc, out) \<Rightarrow>
             (let w1 = emit (Exec cmd) w
              in if st \<noteq> FINISHED \<or> rc \<noteq> 0
                 then bnd (log Error (Msg msg []))
                        (\<lambda>_. bnd (log Error (Output out)) (\<lambda>_. sys_exit 1)) w1
                 else (Return (Some out), w1))))"

text \<open>\<^verbatim>\<open>get_config_file(basedir)\<close>\<close>

definition get_config_file :: "string \<Rightarrow> string" where
  "get_config_file basedir = path_join basedir [''etc'', ''configuration.xml'']"

text \<open>\<^verbatim>\<open>install_config(doit, src, dst)\<close>\<close>

definition install_config :: "bool \<Rightarrow> path \<Rightarrow> path \<Rightarrow> (unit, 'svc) prog" where
  "install_config doit src dst w =
     (if \<not> doit then log Debug (Msg ''Not copying {} to {}'' [P src, P dst]) w
      else
        bnd (log Debug (Msg ''Copying {} to {}'' [P src, P dst]))
          (\<lambda>_ w1.
             case copyfile src dst w1 of
               (Copied, w2) \<Rightarrow> (Return (), w2)
             | (PermissionError, w2) \<Rightarrow>
                 bnd (log Error (Msg ''Failed to copy {} to {} (permissions)'' [P src, P dst]))
                   (\<lambda>_. sys_exit 1) w2
             | (OSError, w2) \<Rightarrow>
                 bnd (log Error (Msg ''Failed to copy {} to {} (I/O)'' [P src, P dst]))
                   (\<lambda>_. sys_exit 1) w2) w)"

text \<open>
  \<^verbatim>\<open>f.write(bytearray(''.join(x), "UTF-8"))\<close>, where \<open>x\<close> may be
  \<^verbatim>\<open>None\<close>: joining \<^verbatim>\<open>None\<close> raises \<^verbatim>\<open>TypeError\<close>.
\<close>

definition write_joined :: "nat \<Rightarrow> string option \<Rightarrow> (unit, 'svc) prog" where
  "write_joined f x =
     (case x of
        None \<Rightarrow> raise ''TypeError''
      | Some s \<Rightarrow> tmp_write f (utf8 s))"

text \<open>\<^verbatim>\<open>config_refresh(doit, logger, basedir, uri, configmerge, roconfig)\<close>\<close>

definition config_refresh ::
  "'svc collab \<Rightarrow> bool \<Rightarrow> string \<Rightarrow> string \<Rightarrow> string \<Rightarrow> string option \<Rightarrow> (unit, 'svc) prog"
where
  "config_refresh c doit basedir uri configmerge roconfig =
     (let main_config = get_config_file basedir
      in bnd (\<lambda>w. if \<not> isfile main_config w
                  then bnd (log Error (Msg ''file {} does not exist'' [S main_config]))
                         (\<lambda>_. sys_exit 1) w
                  else ret () w)
        (\<lambda>_. bnd (if doit
                   then bnd (call_get_configuration c uri)
                          (\<lambda>current_config.
                             if \<not> truthy current_config then sys_exit 1
                             else ret current_config)
                   else ret None)
        (\<lambda>current_config. with_tmp
        (\<lambda>fcur. bnd (log Debug (Msg ''Temporary file for current config: {}'' [P (Temp fcur)]))
        (\<lambda>_. bnd (if doit then write_joined fcur (map_option join_chars current_config)
                   else ret ())
        (\<lambda>_. if \<not> truthy roconfig
              then bnd (log Info (Msg ''Refreshing configuration'' []))
                     (\<lambda>_. install_config doit (Temp fcur) (Named main_config))
              else bnd (log Info (Msg ''Refreshing configuration (merging with read-only config)'' []))
                (\<lambda>_. bnd (exec_command c doit
                             [Named configmerge, Named (case roconfig of Some r \<Rightarrow> r | None \<Rightarrow> []),
                              Temp fcur]
                             ''cannot merge configuration'')
                (\<lambda>merged_config. with_tmp
                (\<lambda>fmerged. bnd (log Debug (Msg ''Temporary file for merged config: {}''
                                             [P (Temp fmerged)]))
                (\<lambda>_. if doit
                      then bnd (write_joined fmerged (map_option join_lines merged_config))
                             (\<lambda>_. install_config doit (Temp fmerged) (Named main_config))
                      else ret ()))))))))))"

text \<open>\<^verbatim>\<open>project_add(doit, logger, project, uri)\<close>\<close>

definition project_add :: "'svc collab \<Rightarrow> bool \<Rightarrow> string \<Rightarrow> string \<Rightarrow> (unit, 'svc) prog" where
  "project_add c doit project uri =
     bnd (log Info (Msg ''Adding project {}'' [S project]))
       (\<lambda>_. if doit then call_add_project c project uri else ret ())"

text \<open>
  \<^verbatim>\<open>project_delete(doit, logger, project, uri)\<close>. The project may be
  \<^verbatim>\<open>None\<close>.
\<close>

definition project_delete ::
  "'svc collab \<Rightarrow> bool \<Rightarrow> string option \<Rightarrow> string \<Rightarrow> (unit, 'svc) prog" where
  "project_delete c doit project uri =
     (case project of
        None \<Rightarrow> raise ''invalid call to project_delete(): missing project''
      | Some name \<Rightarrow>
          if length name = 0 then raise ''invalid call to project_delete(): missing project''
          else
            bnd (log Info (Msg ''Deleting project {} and its index data'' [S name]))
            (\<lambda>_. bnd (if doit then call_delete_project c name uri else ret ())
            (\<lambda>_. bnd (call_get_config_value c ''sourceRoot'' uri)
            (\<lambda>src_root.
               case src_root of
                 None \<Rightarrow> raise ''Could not get source root''
               | Some [] \<Rightarrow> raise ''Could not get source root''
               | Some (v # vs) \<Rightarrow>
                   (let src_root = rstrip v
                    in bnd (log Debug (Msg ''Source root = {}'' [S src_root]))
                      (\<lambda>_. if length src_root = 0 then raise ''source root empty''
                            else
                              (let sourcedir = path_join src_root [name]
                               in bnd (log Debug (Msg ''Removing directory tree {}'' [S sourcedir]))
                                 (\<lambda>_. if doit
                                       then bnd (log Info (Msg ''Removing source code under {}''
                                                            [S sourcedir]))
                                              (\<lambda>_. rmtree sourcedir)
                                       else ret ()))))))))"

subsection \<open>The main program\<close>

text \<open>
  The parsed command line. \<open>arg_noop\<close> is the value the source passes as
  \<open>doit\<close>: \<^verbatim>\<open>store_false\<close> with default \<^verbatim>\<open>True\<close>.
\<close>

record args =
  arg_debug :: bool
  arg_base :: string
  arg_roconfig :: "string option"
  arg_uri :: string
  arg_configmerge :: "string option"
  arg_upload :: bool
  arg_noop :: bool
  arg_add :: "string list option"
  arg_delete :: "string list option"
  arg_refresh :: bool

fun items :: "'a list option \<Rightarrow> 'a list" where
  "items None = []"
| "items (Some xs) = xs"

text \<open>
  \<^verbatim>\<open>try: with lock.acquire(timeout=0): body; except Timeout: ...\<close>. A lock
  that another instance holds raises \<^verbatim>\<open>Timeout\<close> at once; the lock is
  released however the body ends.
\<close>

definition with_lock :: "(unit, 'svc) prog \<Rightarrow> (unit, 'svc) prog" where
  "with_lock body w =
     (if lock_held w
      then bnd (log Warning (Msg ''Already running, exiting.'' [])) (\<lambda>_. sys_exit 1) w
      else (case body (emit LockAcquire w) of (r, w') \<Rightarrow> (r, emit LockRelease w')))"

definition operation :: "'svc collab \<Rightarrow> args \<Rightarrow> string \<Rightarrow> (unit, 'svc) prog" where
  "operation c a configmerge_file =
     (let refresh = config_refresh c (arg_noop a) (arg_base a) (arg_uri a) configmerge_file
                      (arg_roconfig a)
      in if items (arg_add a) \<noteq> []
         then bnd (for_each (items (arg_add a))
                     (\<lambda>proj. project_add c (arg_noop a) proj (arg_uri a)))
                (\<lambda>_. refresh)
         else if items (arg_delete a) \<noteq> []
         then bnd (for_each (items (arg_delete a))
                     (\<lambda>proj. project_delete c (arg_noop a) (Some proj) (arg_uri a)))
                (\<lambda>_. refresh)
         else if arg_refresh a then refresh
         else (\<lambda>w. sys_exit 1 (emit PrintHelp w)))"

definition upload :: "'svc collab \<Rightarrow> args \<Rightarrow> (unit, 'svc) prog" where
  "upload c a w =
     (if arg_upload a
      then (let main_config = get_config_file (arg_base a)
            in if isfile main_config w
               then (if arg_noop a then call_set_configuration c main_config (arg_uri a) w
                     else ret () w)
               else bnd (log Error (Msg ''file {} does not exist'' [S main_config]))
                      (\<lambda>_. sys_exit 1) w)
      else ret () w)"

definition main :: "'svc collab \<Rightarrow> args \<Rightarrow> (unit, 'svc) prog" where
  "main c a =
     bnd (\<lambda>w. if arg_base a \<noteq> []
              then (if isdir (arg_base a) w
                    then log Debug (Msg ''Using {} as instance base'' [S (arg_base a)]) w
                    else bnd (log Error (Msg (''Not a directory: {}'' @ [CHR 0x0A] @
                                          ''Set the base directory with the --base option.'')
                                       [S (arg_base a)]))
                           (\<lambda>_. sys_exit 1) w)
              else ret () w)
     (\<lambda>_. bnd (\<lambda>w. case arg_roconfig a of
                     None \<Rightarrow> ret () w
                   | Some r \<Rightarrow>
                       if r = [] then ret () w
                       else if isfile r w
                       then log Debug (Msg ''Using {} as read-only config'' [S r]) w
                       else bnd (log Error (Msg ''File {} does not exist'' [S r]))
                              (\<lambda>_. sys_exit 1) w)
     (\<lambda>_. bnd (if arg_uri a = []
                then bnd (log Error (Msg ''uri of the webapp not specified'' []))
                       (\<lambda>_. sys_exit 1)
                else ret ())
     (\<lambda>_. case get_command c (arg_configmerge a) ''ConfigMerge'' of
             None \<Rightarrow>
               bnd (log Error (Msg (''Use the --configmerge option to specify the path to'' @
                                    ''the ConfigMerge script'') []))
                 (\<lambda>_. sys_exit 1)
           | Some configmerge_file \<Rightarrow>
               if configmerge_file = []
               then bnd (log Error (Msg (''Use the --configmerge option to specify the path to'' @
                                         ''the ConfigMerge script'') []))
                      (\<lambda>_. sys_exit 1)
               else with_lock (bnd (operation c a configmerge_file) (\<lambda>_. upload c a)))))"

section \<open>Reading a run\<close>

text \<open>The events a call has added to the trace.\<close>

definition new_events :: "'svc world \<Rightarrow> 'svc world \<Rightarrow> event list" where
  "new_events w w' = drop (length (trace w)) (trace w')"

text \<open>The directories handed to \<^verbatim>\<open>shutil.rmtree\<close>, in order.\<close>

fun removed :: "event list \<Rightarrow> string list" where
  "removed [] = []"
| "removed (RmTree d # es) = d # removed es"
| "removed (e # es) = removed es"

text \<open>The destinations handed to \<^verbatim>\<open>shutil.copyfile\<close>, in order.\<close>

fun copy_targets :: "event list \<Rightarrow> path list" where
  "copy_targets [] = []"
| "copy_targets (CopyFile src dst # es) = dst # copy_targets es"
| "copy_targets (e # es) = copy_targets es"

fun is_log :: "event \<Rightarrow> bool" where
  "is_log (Log l a) = True"
| "is_log e = False"

text \<open>The creation and the closing of a temporary file.\<close>

fun is_tmp_scope :: "event \<Rightarrow> bool" where
  "is_tmp_scope (TmpCreate n) = True"
| "is_tmp_scope (TmpClose n) = True"
| "is_tmp_scope e = False"

text \<open>
  \<^verbatim>\<open>src_root[0].rstrip()\<close> for the value that \<^verbatim>\<open>get_config_value\<close>
  returned, and the empty string where \<^verbatim>\<open>project_delete\<close> raises before it
  gets there (\<^verbatim>\<open>None\<close> or an empty list).
\<close>

fun source_root :: "string list option \<Rightarrow> string" where
  "source_root (Some (v # vs)) = rstrip v"
| "source_root x = []"

text \<open>
  A call extends the trace by events that all satisfy \<open>ok\<close>; a program
  preserves \<open>ok\<close> when every call of it does.
\<close>

definition extends :: "(event \<Rightarrow> bool) \<Rightarrow> 'svc world \<Rightarrow> 'svc world \<Rightarrow> bool" where
  "extends ok w w' =
     (take (length (trace w)) (trace w') = trace w \<and> list_all ok (new_events w w'))"

definition preserves :: "(event \<Rightarrow> bool) \<Rightarrow> ('a, 'svc) prog \<Rightarrow> bool" where
  "preserves ok m = (\<forall>w. extends ok w (snd (m w)))"

fun copies_to :: "path \<Rightarrow> event \<Rightarrow> bool" where
  "copies_to x (CopyFile src dst) = (dst = x)"
| "copies_to x e = True"

text \<open>
  What a dry run may add to the trace: log lines, the lookup of a configuration
  value, the creation and the closing of temporary files, the help text and the
  lock. A dry call leaves the files, the directories and the web application as
  they were and adds only such events.
\<close>

fun dry_event :: "event \<Rightarrow> bool" where
  "dry_event (Log l a) = True"
| "dry_event (Net (GetConfigValue k u)) = True"
| "dry_event (TmpCreate n) = True"
| "dry_event (TmpClose n) = True"
| "dry_event PrintHelp = True"
| "dry_event LockAcquire = True"
| "dry_event LockRelease = True"
| "dry_event e = False"

definition dry :: "'svc world \<Rightarrow> 'svc world \<Rightarrow> bool" where
  "dry w w' =
     (files w' = files w \<and> dirs w' = dirs w \<and> svc w' = svc w \<and> extends dry_event w w')"

definition dry_prog :: "('a, 'svc) prog \<Rightarrow> bool" where
  "dry_prog m = (\<forall>w. dry w (snd (m w)))"

text \<open>The checks of the main program that come before the lock.\<close>

definition validated :: "'svc collab \<Rightarrow> args \<Rightarrow> 'svc world \<Rightarrow> bool" where
  "validated c a w =
     ((arg_base a = [] \<or> isdir (arg_base a) w) \<and>
      (case arg_roconfig a of None \<Rightarrow> True | Some r \<Rightarrow> r = [] \<or> isfile r w) \<and>
      arg_uri a \<noteq> [] \<and>
      truthy (get_command c (arg_configmerge a) ''ConfigMerge''))"

section \<open>A concrete installation\<close>

text \<open>
  A web application that holds the list of its projects, serves the
  configuration \<^verbatim>\<open><config/>\<close> and the source root \<^verbatim>\<open>/src\<close>, and a merge
  tool that wraps what it reads from its second file argument.
\<close>

definition demo_collab :: "string list collab" where
  "demo_collab =
     \<lparr>get_configuration = (\<lambda>uri s. Return (Some ''<config/>'')),
      set_configuration = (\<lambda>d uri s. (Return (), s)),
      add_project = (\<lambda>p uri s. (Return (), p # s)),
      delete_project = (\<lambda>p uri s. (Return (), removeAll p s)),
      get_config_value = (\<lambda>k uri s. Return (Some [''/src  '', ''/other''])),
      run_command = (\<lambda>cmd rd.
         case cmd of
           [m, r, cur] \<Rightarrow>
             (FINISHED, 0,
              [''<merged>'', case rd cur of Some d \<Rightarrow> d | None \<Rightarrow> ''?'', ''</merged>''])
         | _ \<Rightarrow> (NOT_FINISHED, 1, [''usage''])),
      get_command = (\<lambda>x d. x)\<rparr>"

definition demo_world :: "string list world" where
  "demo_world =
     \<lparr>files = [''/tmp/inst/etc/configuration.xml'' \<mapsto> ''old'', ''/ro.xml'' \<mapsto> ''<ro/>'',
               ''/src/foo/a.c'' \<mapsto> ''x''],
      dirs = {''/tmp'', ''/tmp/inst'', ''/tmp/inst/etc'', ''/src'', ''/src/foo''},
      unwritable = {},
      tmpfiles = Map.empty,
      tmp_next = 0,
      buffer_size = 8192,
      lock_held = False,
      svc = [''foo''],
      trace = []\<rparr>"

definition demo_args :: args where
  "demo_args =
     \<lparr>arg_debug = False, arg_base = ''/tmp/inst'', arg_roconfig = None,
      arg_uri = ''http://x/source'', arg_configmerge = Some ''ConfigMerge'',
      arg_upload = True, arg_noop = True, arg_add = None, arg_delete = Some [''foo''],
      arg_refresh = False\<rparr>"

section \<open>Auxiliary facts\<close>

lemma emit_alt: "emit e w = w\<lparr>trace := trace w @ [e]\<rparr>"
  by (simp add: emit_def)

lemmas prog_defs = ret_def sys_exit_def raise_def bnd_def emit_alt log_def

lemmas refresh_defs = config_refresh_def with_tmp_def tmp_create_def tmp_close_def tmp_write_def
  write_joined_def buffered_write_def install_config_def copyfile_def read_disk_def disk_view_def
  write_disk_def is_dir_path_def write_denied_def call_get_configuration_def exec_command_def

lemmas run_defs = ret_def sys_exit_def raise_def bnd_def emit_def log_def

lemmas demo_defs = demo_collab_def demo_world_def get_config_file_def path_join_def join2_def
  isfile_def utf8_def utf8_char_def join_lines_def rstrip_def isspace_def

lemma join_chars_id [simp]: "join_chars s = s"
  by (induction s) (simp_all add: join_chars_def)

lemma rstrip_split: "\<exists>t. s = rstrip s @ t \<and> list_all isspace t"
proof -
  have "rev s = takeWhile isspace (rev s) @ dropWhile isspace (rev s)"
    by simp
  then have "s = rstrip s @ rev (takeWhile isspace (rev s))"
    unfolding rstrip_def by (metis rev_append rev_rev_ident)
  moreover have "list_all isspace (rev (takeWhile isspace (rev s)))"
    by (simp add: list_all_iff) (meson set_takeWhileD)
  ultimately show ?thesis by blast
qed

lemma rstrip_last: "rstrip s \<noteq> [] \<Longrightarrow> \<not> isspace (last (rstrip s))"
  by (simp add: rstrip_def last_rev hd_dropWhile)

lemma get_config_file_eq:
  "get_config_file basedir = join2 basedir ''etc/configuration.xml''"
  by (simp add: get_config_file_def path_join_def join2_def)

lemma copy_targets_append [simp]:
  "copy_targets (xs @ ys) = copy_targets xs @ copy_targets ys"
  by (induction xs rule: copy_targets.induct) simp_all

lemma removed_append [simp]: "removed (xs @ ys) = removed xs @ removed ys"
  by (induction xs rule: removed.induct) simp_all

subsection \<open>Programs that add only events of one kind\<close>

lemma extends_iff: "extends ok w w' \<longleftrightarrow> (\<exists>es. trace w' = trace w @ es \<and> list_all ok es)"
proof
  assume "extends ok w w'"
  then have "trace w' = trace w @ new_events w w'" and "list_all ok (new_events w w')"
    unfolding extends_def new_events_def by (metis append_take_drop_id, simp)
  then show "\<exists>es. trace w' = trace w @ es \<and> list_all ok es" by blast
next
  assume "\<exists>es. trace w' = trace w @ es \<and> list_all ok es"
  then show "extends ok w w'" by (auto simp: extends_def new_events_def)
qed

lemma extends_refl: "extends ok w w"
  by (simp add: extends_iff)

lemma extends_trans: "extends ok w w1 \<Longrightarrow> extends ok w1 w2 \<Longrightarrow> extends ok w w2"
  by (auto simp: extends_iff)

lemma extends_emit: "ok e \<Longrightarrow> extends ok w (emit e w)"
  by (simp add: extends_iff emit_alt)

lemma preservesI: "(\<And>w. extends ok w (snd (m w))) \<Longrightarrow> preserves ok m"
  by (simp add: preserves_def)

lemma preservesD: "preserves ok m \<Longrightarrow> extends ok w (snd (m w))"
  by (simp add: preserves_def)

lemma preserves_ret: "preserves ok (ret x)"
  by (simp add: preserves_def ret_def extends_refl)

lemma preserves_sys_exit: "preserves ok (sys_exit n)"
  by (simp add: preserves_def sys_exit_def extends_refl)

lemma preserves_raise: "preserves ok (raise e)"
  by (simp add: preserves_def raise_def extends_refl)

lemma preserves_log: "ok (Log l a) \<Longrightarrow> preserves ok (log l a)"
  by (simp add: preserves_def log_def extends_emit)

lemma preserves_bnd:
  assumes "preserves ok m" and "\<And>x. preserves ok (f x)"
  shows "preserves ok (bnd m f)"
proof (rule preservesI)
  fix w
  obtain r w1 where mw: "m w = (r, w1)" by (cases "m w")
  have e1: "extends ok w w1" using preservesD [OF assms(1), of w] mw by simp
  show "extends ok w (snd (bnd m f w))"
  proof (cases r)
    case (Return x)
    have "extends ok w1 (snd (f x w1))" by (rule preservesD [OF assms(2)])
    with e1 show ?thesis using mw Return by (simp add: bnd_def extends_trans)
  next
    case (Exit n)
    with e1 mw show ?thesis by (simp add: bnd_def)
  next
    case (Raise e)
    with e1 mw show ?thesis by (simp add: bnd_def)
  qed
qed

lemma preserves_if:
  "(b \<Longrightarrow> preserves ok m) \<Longrightarrow> (\<not> b \<Longrightarrow> preserves ok n) \<Longrightarrow> preserves ok (if b then m else n)"
  by simp

lemma preserves_with_tmp:
  fixes body :: "nat \<Rightarrow> ('a, 'svc) prog"
  assumes "\<And>n. ok (TmpCreate n)" and "\<And>n. ok (TmpClose n)" and "\<And>n. preserves ok (body n)"
  shows "preserves ok (with_tmp body)"
proof (rule preservesI)
  fix w :: "'svc world"
  obtain n w1 where c: "tmp_create w = (Return n, w1)" and e1: "extends ok w w1"
    using assms(1) by (simp add: tmp_create_def Let_def extends_iff emit_alt)
  obtain r w2 where b: "body n w1 = (r, w2)" by (cases "body n w1")
  have e2: "extends ok w1 w2" using preservesD [OF assms(3), of w1 n] b by simp
  have e3: "extends ok w2 (tmp_close n w2)"
    using assms(2) by (simp add: tmp_close_def extends_iff emit_alt)
  have "with_tmp body w = (r, tmp_close n w2)"
    using b c by (simp add: with_tmp_def)
  then show "extends ok w (snd (with_tmp body w))"
    using e1 e2 e3 by (auto intro: extends_trans)
qed

lemma preserves_tmp_write: "ok (TmpWrite n d) \<Longrightarrow> preserves ok (tmp_write n d)"
  by (auto simp: preserves_def tmp_write_def extends_iff emit_alt split: option.splits)

lemma preserves_write_joined:
  "(\<And>d. ok (TmpWrite n d)) \<Longrightarrow> preserves ok (write_joined n x)"
  by (cases x) (simp_all add: write_joined_def preserves_raise preserves_tmp_write)

lemma preserves_call_get_configuration:
  "ok (Net (GetConfiguration uri)) \<Longrightarrow> preserves ok (call_get_configuration c uri)"
  by (simp add: preserves_def call_get_configuration_def extends_emit)

lemma preserves_exec_command:
  assumes "\<And>l a. ok (Log l a)" and "ok (Exec cmd)"
  shows "preserves ok (exec_command c doit cmd msg)"
  using assms
  by (auto simp: preserves_def exec_command_def prog_defs extends_iff Let_def split: prod.splits)

lemma preserves_install_config:
  assumes "\<And>l a. ok (Log l a)" and "ok (CopyFile src dst)"
  shows "preserves ok (install_config doit src dst)"
  using assms
  by (auto simp: preserves_def install_config_def copyfile_def write_disk_def prog_defs extends_iff
      Let_def split: prod.splits option.splits copy_outcome.splits path.splits)

lemma copies_to_config_refresh:
  "preserves (copies_to (Named (get_config_file basedir)))
     (config_refresh c doit basedir uri cm ro)"
  unfolding config_refresh_def Let_def
  by (intro preserves_bnd preserves_if preserves_with_tmp preserves_log preserves_ret
      preserves_sys_exit preserves_write_joined preserves_call_get_configuration
      preserves_exec_command preserves_install_config preservesI)
    (simp_all add: prog_defs extends_iff)

lemma copies_to_targets: "list_all (copies_to x) es \<Longrightarrow> set (copy_targets es) \<subseteq> {x}"
  by (induction es rule: copy_targets.induct) simp_all

lemma config_refresh_copy_targets:
  "set (copy_targets (new_events w (snd (config_refresh c doit basedir uri cm ro w))))
     \<subseteq> {Named (get_config_file basedir)}"
  using preservesD [OF copies_to_config_refresh, of basedir w c doit uri cm ro]
  by (simp add: extends_def copies_to_targets)

subsection \<open>Dry programs\<close>

lemma dry_refl: "dry w w"
  by (simp add: dry_def extends_refl)

lemma dry_trans: "dry w w1 \<Longrightarrow> dry w1 w2 \<Longrightarrow> dry w w2"
  by (auto simp: dry_def intro: extends_trans)

lemma dry_emit: "dry_event e \<Longrightarrow> dry w (emit e w)"
  by (simp add: dry_def extends_emit) (simp add: emit_def)

lemma dry_progI: "(\<And>w. dry w (snd (m w))) \<Longrightarrow> dry_prog m"
  by (simp add: dry_prog_def)

lemma dry_progD: "dry_prog m \<Longrightarrow> dry w (snd (m w))"
  by (simp add: dry_prog_def)

lemma dry_prog_ret: "dry_prog (ret x)"
  by (simp add: dry_prog_def ret_def dry_refl)

lemma dry_prog_sys_exit: "dry_prog (sys_exit n)"
  by (simp add: dry_prog_def sys_exit_def dry_refl)

lemma dry_prog_log: "dry_prog (log l a)"
  by (simp add: dry_prog_def log_def dry_emit)

lemma dry_prog_bnd:
  assumes "dry_prog m" and "\<And>x. dry_prog (f x)"
  shows "dry_prog (bnd m f)"
proof (rule dry_progI)
  fix w
  obtain r w1 where mw: "m w = (r, w1)" by (cases "m w")
  have e1: "dry w w1" using dry_progD [OF assms(1), of w] mw by simp
  show "dry w (snd (bnd m f w))"
  proof (cases r)
    case (Return x)
    have "dry w1 (snd (f x w1))" by (rule dry_progD [OF assms(2)])
    with e1 show ?thesis using mw Return by (simp add: bnd_def dry_trans)
  next
    case (Exit n)
    with e1 mw show ?thesis by (simp add: bnd_def)
  next
    case (Raise e)
    with e1 mw show ?thesis by (simp add: bnd_def)
  qed
qed

lemma dry_prog_for_each: "(\<And>x. dry_prog (f x)) \<Longrightarrow> dry_prog (for_each xs f)"
  by (induction xs) (simp_all add: dry_prog_ret dry_prog_bnd)

lemma dry_prog_project_add: "dry_prog (project_add c False project uri)"
  unfolding project_add_def by (intro dry_prog_bnd dry_prog_log) (simp add: dry_prog_ret)

lemma dry_prog_project_delete: "dry_prog (project_delete c False p uri)"
  by (rule dry_progI)
     (simp add: dry_def extends_iff project_delete_def prog_defs call_get_config_value_def Let_def
       split: option.split list.split result.split)

lemma dry_prog_config_refresh: "dry_prog (config_refresh c False basedir uri cm ro)"
proof (rule dry_progI)
  fix w
  show "dry w (snd (config_refresh c False basedir uri cm ro w))"
    by (cases "isfile (get_config_file basedir) w"; cases "truthy ro")
       (simp_all add: dry_def extends_iff config_refresh_def prog_defs Let_def with_tmp_def
         tmp_create_def tmp_close_def exec_command_def install_config_def)
qed

lemma dry_prog_upload: "dry_prog (upload c (a\<lparr>arg_noop := False\<rparr>))"
  by (rule dry_progI) (simp add: upload_def dry_def extends_iff prog_defs Let_def)

lemma dry_prog_print_help: "dry_prog (\<lambda>w. sys_exit n (emit PrintHelp w))"
  by (rule dry_progI) (simp add: sys_exit_def dry_emit)

lemma dry_prog_operation: "dry_prog (operation c (a\<lparr>arg_noop := False\<rparr>) cm)"
  by (simp add: operation_def Let_def dry_prog_bnd dry_prog_for_each dry_prog_project_add
      dry_prog_project_delete dry_prog_config_refresh dry_prog_print_help)

lemma dry_prog_with_lock:
  fixes body :: "(unit, 'svc) prog"
  assumes "dry_prog body"
  shows "dry_prog (with_lock body)"
proof (rule dry_progI)
  fix w :: "'svc world"
  show "dry w (snd (with_lock body w))"
  proof (cases "lock_held w")
    case True
    then show ?thesis
      by (simp add: with_lock_def dry_def extends_iff prog_defs)
  next
    case False
    obtain r w' where b: "body (emit LockAcquire w) = (r, w')"
      by (cases "body (emit LockAcquire w)")
    have "dry w (emit LockAcquire w)" by (simp add: dry_emit)
    moreover have "dry (emit LockAcquire w) w'"
      using dry_progD [OF assms, of "emit LockAcquire w"] b by simp
    moreover have "dry w' (emit LockRelease w')"
      by (simp add: dry_emit)
    ultimately have "dry w (emit LockRelease w')"
      by (blast intro: dry_trans)
    with False b show ?thesis
      by (simp add: with_lock_def)
  qed
qed

lemma dry_prog_main: "dry_prog (main c (a\<lparr>arg_noop := False\<rparr>))"
  unfolding main_def
  apply (intro dry_prog_bnd)
     apply (rule dry_progI, simp add: dry_def extends_iff prog_defs)
    apply (rule dry_progI, simp add: dry_def extends_iff prog_defs split: option.split)
   apply (simp add: dry_prog_bnd dry_prog_log dry_prog_sys_exit dry_prog_ret)
  apply (simp add: dry_prog_bnd dry_prog_log dry_prog_sys_exit dry_prog_with_lock
      dry_prog_operation dry_prog_upload split: option.split)
  done

section \<open>Properties\<close>

subsection \<open>Deleting a project without a name\<close>

text \<open>
  C5. \<^verbatim>\<open>project_delete\<close> called with a project that is \<^verbatim>\<open>None\<close> or the
  empty string raises the contract violation and leaves the world as it was: the
  trace gets no event, so neither \<^verbatim>\<open>delete_project\<close> nor the lookup of
  \<^verbatim>\<open>sourceRoot\<close> is called, in a real run and in a dry run.
\<close>

theorem project_delete_missing_project:
  "project_delete c doit None uri w =
     (Raise ''invalid call to project_delete(): missing project'', w) \<and>
   project_delete c doit (Some []) uri w =
     (Raise ''invalid call to project_delete(): missing project'', w)"
  by (simp add: project_delete_def raise_def)

theorem project_delete_missing_project_witness:
  "fst (project_delete demo_collab True (Some []) ''http://x/source'' demo_world) =
     Raise ''invalid call to project_delete(): missing project'' \<and>
   svc (snd (project_delete demo_collab True (Some []) ''http://x/source'' demo_world)) =
     [''foo''] \<and>
   trace (snd (project_delete demo_collab True None ''http://x/source'' demo_world)) = []"
  using project_delete_missing_project [of demo_collab True "''http://x/source''" demo_world]
  by (simp add: demo_world_def)

subsection \<open>Running a command\<close>

text \<open>
  C7. \<^verbatim>\<open>exec_command\<close> with \<open>doit\<close> set runs the command. When the command
  did not finish or its return code is not zero, the message and the captured
  output are logged and the program exits with status 1; otherwise the captured
  output is the result.
\<close>

theorem exec_command_doit:
  assumes "run_command c cmd (read_disk w) = (st, rc, out)"
  shows "(st \<noteq> FINISHED \<or> rc \<noteq> 0 \<longrightarrow>
            exec_command c True cmd msg w =
              (Exit 1,
               w\<lparr>trace := trace w @
                  [Exec cmd, Log Error (Msg msg []), Log Error (Output out)]\<rparr>)) \<and>
         (st = FINISHED \<and> rc = 0 \<longrightarrow>
            exec_command c True cmd msg w =
              (Return (Some out), w\<lparr>trace := trace w @ [Exec cmd]\<rparr>))"
  using assms by (simp add: exec_command_def prog_defs)

theorem exec_command_doit_witness:
  "exec_command demo_collab True [Named ''ConfigMerge''] ''cannot merge configuration''
       demo_world =
     (Exit 1,
      demo_world\<lparr>trace :=
        [Exec [Named ''ConfigMerge''], Log Error (Msg ''cannot merge configuration'' []),
         Log Error (Output [''usage''])]\<rparr>) \<and>
   exec_command demo_collab True [Named ''ConfigMerge'', Named ''/ro.xml'', Named ''/ro.xml'']
       ''cannot merge configuration'' demo_world =
     (Return (Some [''<merged>'', ''<ro/>'', ''</merged>'']),
      demo_world\<lparr>trace :=
        [Exec [Named ''ConfigMerge'', Named ''/ro.xml'', Named ''/ro.xml'']]\<rparr>)"
proof -
  have a: "run_command demo_collab [Named ''ConfigMerge''] (read_disk demo_world) =
             (NOT_FINISHED, 1, [''usage''])"
    by (simp add: demo_collab_def)
  have b: "run_command demo_collab [Named ''ConfigMerge'', Named ''/ro.xml'', Named ''/ro.xml'']
             (read_disk demo_world) = (FINISHED, 0, [''<merged>'', ''<ro/>'', ''</merged>''])"
    by (simp add: demo_collab_def demo_world_def read_disk_def disk_view_def)
  have t: "trace demo_world = []"
    by (simp add: demo_world_def)
  show ?thesis
    using exec_command_doit [OF a, of "''cannot merge configuration''"]
      exec_command_doit [OF b, of "''cannot merge configuration''"] t
    by simp
qed

subsection \<open>The configuration file of the instance\<close>

text \<open>
  C6. \<^verbatim>\<open>config_refresh\<close> exits with status 1 when the configuration file of
  the instance is not a file: the only event is the error line, so nothing has
  been fetched from the web application. The file is the join of the base
  directory with \<^verbatim>\<open>etc/configuration.xml\<close>, and whatever else happens in
  the call, a copy goes to this path and to no other.
\<close>

theorem config_refresh_requires_config_file:
  "(\<not> isfile (get_config_file basedir) w \<longrightarrow>
      config_refresh c doit basedir uri cm ro w =
        (Exit 1,
         w\<lparr>trace := trace w @
            [Log Error (Msg ''file {} does not exist'' [S (get_config_file basedir)])]\<rparr>)) \<and>
   get_config_file basedir = join2 basedir ''etc/configuration.xml'' \<and>
   set (copy_targets (new_events w (snd (config_refresh c doit basedir uri cm ro w))))
     \<subseteq> {Named (join2 basedir ''etc/configuration.xml'')}"
proof (intro conjI impI)
  assume "\<not> isfile (get_config_file basedir) w"
  then show "config_refresh c doit basedir uri cm ro w =
        (Exit 1,
         w\<lparr>trace := trace w @
            [Log Error (Msg ''file {} does not exist'' [S (get_config_file basedir)])]\<rparr>)"
    by (simp add: config_refresh_def prog_defs Let_def)
next
  show "get_config_file basedir = join2 basedir ''etc/configuration.xml''"
    by (rule get_config_file_eq)
next
  show "set (copy_targets (new_events w (snd (config_refresh c doit basedir uri cm ro w))))
     \<subseteq> {Named (join2 basedir ''etc/configuration.xml'')}"
    using config_refresh_copy_targets [of w c doit basedir uri cm ro]
    by (simp only: get_config_file_eq)
qed

theorem config_refresh_requires_config_file_witness:
  "config_refresh demo_collab True ''/nowhere'' ''http://x/source'' ''ConfigMerge'' None
       demo_world =
     (Exit 1,
      demo_world\<lparr>trace :=
        [Log Error (Msg ''file {} does not exist'' [S ''/nowhere/etc/configuration.xml''])]\<rparr>) \<and>
   get_config_file ''/tmp/inst'' = ''/tmp/inst/etc/configuration.xml'' \<and>
   get_config_file ''/tmp/inst/'' = ''/tmp/inst/etc/configuration.xml''"
proof -
  have g: "get_config_file ''/nowhere'' = ''/nowhere/etc/configuration.xml''"
    by (simp add: get_config_file_def path_join_def join2_def)
  have n: "\<not> isfile (get_config_file ''/nowhere'') demo_world"
    by (simp add: g isfile_def demo_world_def)
  have t: "trace demo_world = []"
    by (simp add: demo_world_def)
  from config_refresh_requires_config_file
    [of "''/nowhere''" demo_world demo_collab True "''http://x/source''" "''ConfigMerge''" None]
    n g t
  have "config_refresh demo_collab True ''/nowhere'' ''http://x/source'' ''ConfigMerge'' None
       demo_world =
     (Exit 1,
      demo_world\<lparr>trace :=
        [Log Error (Msg ''file {} does not exist'' [S ''/nowhere/etc/configuration.xml''])]\<rparr>)"
    by simp
  moreover from config_refresh_requires_config_file [THEN conjunct2, THEN conjunct1,
      of "''/tmp/inst''"]
  have "get_config_file ''/tmp/inst'' = ''/tmp/inst/etc/configuration.xml''"
    by (simp add: join2_def)
  moreover from config_refresh_requires_config_file [THEN conjunct2, THEN conjunct1,
      of "''/tmp/inst/''"]
  have "get_config_file ''/tmp/inst/'' = ''/tmp/inst/etc/configuration.xml''"
    by (simp add: join2_def)
  ultimately show ?thesis by simp
qed

subsection \<open>The lock\<close>

text \<open>
  C8. When another instance holds the lock and the program gets as far as the
  lock, it logs the warning and exits with status 1. Nothing but the trace has
  changed, and the trace has only got log lines: no project was added or
  deleted, nothing was refreshed or uploaded.
\<close>

theorem lock_contention:
  assumes "lock_held w" and "validated c a w"
  shows "fst (main c a w) = Exit 1 \<and>
         (snd (main c a w))\<lparr>trace := trace w\<rparr> = w \<and>
         list_all is_log (new_events w (snd (main c a w))) \<and>
         last (trace (snd (main c a w))) = Log Warning (Msg ''Already running, exiting.'' [])"
proof -
  from assms(2) obtain cm where cm: "get_command c (arg_configmerge a) ''ConfigMerge'' = Some cm"
    and ne: "cm \<noteq> []"
    by (cases "get_command c (arg_configmerge a) ''ConfigMerge''") (auto simp: validated_def)
  show ?thesis
    using assms cm ne
    by (auto simp: main_def validated_def with_lock_def prog_defs new_events_def isdir_def
        isfile_def split: option.splits)
qed

theorem lock_contention_witness:
  "fst (main demo_collab demo_args (demo_world\<lparr>lock_held := True\<rparr>)) = Exit 1 \<and>
   (snd (main demo_collab demo_args (demo_world\<lparr>lock_held := True\<rparr>)))\<lparr>trace := []\<rparr> =
     demo_world\<lparr>lock_held := True\<rparr> \<and>
   last (trace (snd (main demo_collab demo_args (demo_world\<lparr>lock_held := True\<rparr>)))) =
     Log Warning (Msg ''Already running, exiting.'' [])"
proof -
  have l: "lock_held (demo_world\<lparr>lock_held := True\<rparr>)"
    by simp
  have v: "validated demo_collab demo_args (demo_world\<lparr>lock_held := True\<rparr>)"
    by (simp add: validated_def demo_args_def demo_collab_def demo_world_def isdir_def)
  have t: "trace (demo_world\<lparr>lock_held := True\<rparr>) = []"
    by (simp add: demo_world_def)
  show ?thesis
    using lock_contention [OF l v] by (simp only: t)
qed

subsection \<open>Deleting a project\<close>

text \<open>
  \<^verbatim>\<open>project_delete\<close> for a project with a name, as far as the lookup of
  \<^verbatim>\<open>sourceRoot\<close> and on from there: \<open>s\<close> is the state of the web
  application after \<^verbatim>\<open>delete_project\<close> (in a dry run, the state as it was),
  \<open>val\<close> the value the lookup returns.
\<close>

lemma project_delete_lookup:
  assumes "name \<noteq> []"
    and "if doit then delete_project c name uri (svc w) = (Return (), s) else s = svc w"
    and "get_config_value c ''sourceRoot'' uri s = Return val"
  shows "project_delete c doit (Some name) uri w =
    (let w1 = w\<lparr>svc := s, trace := trace w @
               ([Log Info (Msg ''Deleting project {} and its index data'' [S name])] @
                (if doit then [Net (DeleteProject name uri)] else []) @
                [Net (GetConfigValue ''sourceRoot'' uri)])\<rparr>
     in case val of
          None \<Rightarrow> (Raise ''Could not get source root'', w1)
        | Some [] \<Rightarrow> (Raise ''Could not get source root'', w1)
        | Some (v # vs) \<Rightarrow>
            if rstrip v = []
            then (Raise ''source root empty'',
                  w1\<lparr>trace := trace w1 @ [Log Debug (Msg ''Source root = {}'' [S (rstrip v)])]\<rparr>)
            else if doit
            then rmtree (path_join (rstrip v) [name])
                   (w1\<lparr>trace := trace w1 @
                      [Log Debug (Msg ''Source root = {}'' [S (rstrip v)]),
                       Log Debug (Msg ''Removing directory tree {}''
                                    [S (path_join (rstrip v) [name])]),
                       Log Info (Msg ''Removing source code under {}''
                                   [S (path_join (rstrip v) [name])])]\<rparr>)
            else (Return (),
                   w1\<lparr>trace := trace w1 @
                      [Log Debug (Msg ''Source root = {}'' [S (rstrip v)]),
                       Log Debug (Msg ''Removing directory tree {}''
                                    [S (path_join (rstrip v) [name])])]\<rparr>))"
  using assms
  by (cases doit)
     (simp_all add: project_delete_def prog_defs call_delete_project_def call_get_config_value_def
       Let_def split: option.split list.split)

lemma resolve_dir_frame [simp]:
  "resolve_dir (w\<lparr>svc := s\<rparr>) p = resolve_dir w p"
  "resolve_dir (w\<lparr>trace := t\<rparr>) p = resolve_dir w p"
  by (simp_all add: resolve_dir_def)

lemma rmtree_trace: "trace (snd (rmtree p w)) = trace w @ [RmTree p]"
  by (simp add: rmtree_def emit_alt Let_def split: option.split)

text \<open>
  A real run for a project with a name, where the web application deletes the
  project and reports a source root that is not empty, and where the join of the
  source root with the name leads to a directory and ends in a name: the call of
  \<^verbatim>\<open>delete_project\<close> comes before the removal, the call returns, and
  afterwards the directory and everything in it are gone and every other file and
  directory is as it was.
\<close>

lemma project_delete_removes:
  assumes "name \<noteq> []"
    and "delete_project c name uri (svc w) = (Return (), s)"
    and "get_config_value c ''sourceRoot'' uri s = Return val"
    and "source_root val \<noteq> []"
    and "resolve_dir w (path_join (source_root val) [name]) = Some st"
    and "rmdir_ok (path_join (source_root val) [name])"
  shows "fst (project_delete c True (Some name) uri w) = Return () \<and>
         svc (snd (project_delete c True (Some name) uri w)) = s \<and>
         new_events w (snd (project_delete c True (Some name) uri w)) =
           [Log Info (Msg ''Deleting project {} and its index data'' [S name]),
            Net (DeleteProject name uri),
            Net (GetConfigValue ''sourceRoot'' uri),
            Log Debug (Msg ''Source root = {}'' [S (source_root val)]),
            Log Debug (Msg ''Removing directory tree {}''
                         [S (path_join (source_root val) [name])]),
            Log Info (Msg ''Removing source code under {}''
                        [S (path_join (source_root val) [name])]),
            RmTree (path_join (source_root val) [name])] \<and>
         files (snd (project_delete c True (Some name) uri w)) =
           (\<lambda>q. if at_or_inside (absolute (path_join (source_root val) [name])) st q then None
                else files w q) \<and>
         dirs (snd (project_delete c True (Some name) uri w)) =
           {q \<in> dirs w. \<not> at_or_inside (absolute (path_join (source_root val) [name])) st q}"
proof -
  have d: "if True then delete_project c name uri (svc w) = (Return (), s) else s = svc w"
    using assms(2) by simp
  from assms(4) obtain v vs where val: "val = Some (v # vs)" and v: "rstrip v \<noteq> []"
    by (cases val rule: source_root.cases) simp_all
  show ?thesis
    unfolding project_delete_lookup [OF assms(1) d assms(3)]
    using assms(5,6) v
    by (simp add: val rmtree_def emit_alt new_events_def Let_def fun_eq_iff)
qed

text \<open>
  Whenever the lookup returns no value or an empty one, \<^verbatim>\<open>project_delete\<close>
  raises, nothing is handed to \<^verbatim>\<open>rmtree\<close>, and the files and directories
  are as they were.
\<close>

lemma project_delete_no_source_root:
  assumes "name \<noteq> []"
    and "if doit then delete_project c name uri (svc w) = (Return (), s) else s = svc w"
    and "get_config_value c ''sourceRoot'' uri s = Return val"
    and "source_root val = []"
  shows "fst (project_delete c doit (Some name) uri w) =
           Raise (if val = None \<or> val = Some [] then ''Could not get source root''
                  else ''source root empty'') \<and>
         removed (new_events w (snd (project_delete c doit (Some name) uri w))) = [] \<and>
         files (snd (project_delete c doit (Some name) uri w)) = files w \<and>
         dirs (snd (project_delete c doit (Some name) uri w)) = dirs w"
proof (cases val rule: source_root.cases)
  case (1 v vs)
  with assms(4) show ?thesis
    unfolding project_delete_lookup [OF assms(1-3)]
    by (simp add: new_events_def)
next
  case "2_1"
  then show ?thesis
    unfolding project_delete_lookup [OF assms(1-3)]
    by (simp add: new_events_def)
next
  case "2_2"
  then show ?thesis
    unfolding project_delete_lookup [OF assms(1-3)]
    by (simp add: new_events_def)
qed

lemmas path_defs = resolve_dir_def parts_def absolute_def name_of_def at_or_inside_def inside_def
  rmdir_ok_def

text \<open>
  The project \<^verbatim>\<open>foo\<close> of the installation, also when it is written
  \<^verbatim>\<open>foo/\<close>: the web application has dropped the project, the directory
  \<^verbatim>\<open>/src/foo\<close> and the file in it are gone, and the configuration file of the
  instance is as it was.
\<close>

lemma project_delete_foo:
  "fst (project_delete demo_collab True (Some ''foo/'') ''http://x/source'' demo_world) =
     Return () \<and>
   removed (trace (snd (project_delete demo_collab True (Some ''foo/'') ''http://x/source''
     demo_world))) = [''/src/foo/''] \<and>
   files (snd (project_delete demo_collab True (Some ''foo/'') ''http://x/source'' demo_world))
     ''/src/foo/a.c'' = None \<and>
   ''/src/foo'' \<notin> dirs (snd (project_delete demo_collab True (Some ''foo/'') ''http://x/source''
     demo_world)) \<and>
   ''/src'' \<in> dirs (snd (project_delete demo_collab True (Some ''foo/'') ''http://x/source''
     demo_world)) \<and>
   files (snd (project_delete demo_collab True (Some ''foo/'') ''http://x/source'' demo_world))
     ''/tmp/inst/etc/configuration.xml'' = Some ''old''"
  by (simp add: project_delete_def call_delete_project_def call_get_config_value_def rmtree_def
      run_defs path_defs demo_defs Let_def)

text \<open>
  C4. The project \<^verbatim>\<open>/tmp/inst\<close>, a name that starts with a slash, with the
  source root \<^verbatim>\<open>/src\<close>. The web application is told to delete the project
  first, and the removal is the last event, as C4 says. The directory that is
  removed is not below the source root: \<^verbatim>\<open>os.path.join\<close> drops the source
  root in front of such a name, so the source hands \<^verbatim>\<open>/tmp/inst\<close> itself to
  \<^verbatim>\<open>rmtree\<close>. The call returns normally; the base directory of the
  instance and its configuration file are gone, and the source code below the
  source root is still there. The check at the head of
  \<^verbatim>\<open>project_delete\<close>, made to \<^verbatim>\<open>be extra careful\<close> with the recursive
  removal, looks only for a name that is missing or empty.
\<close>

theorem project_delete_absolute_name:
  "path_join ''/src'' [''/tmp/inst''] = ''/tmp/inst'' \<and>
   fst (project_delete demo_collab True (Some ''/tmp/inst'') ''http://x/source'' demo_world) =
     Return () \<and>
   new_events demo_world
     (snd (project_delete demo_collab True (Some ''/tmp/inst'') ''http://x/source'' demo_world)) =
     [Log Info (Msg ''Deleting project {} and its index data'' [S ''/tmp/inst'']),
      Net (DeleteProject ''/tmp/inst'' ''http://x/source''),
      Net (GetConfigValue ''sourceRoot'' ''http://x/source''),
      Log Debug (Msg ''Source root = {}'' [S ''/src'']),
      Log Debug (Msg ''Removing directory tree {}'' [S ''/tmp/inst'']),
      Log Info (Msg ''Removing source code under {}'' [S ''/tmp/inst'']),
      RmTree ''/tmp/inst''] \<and>
   files (snd (project_delete demo_collab True (Some ''/tmp/inst'') ''http://x/source''
     demo_world)) ''/tmp/inst/etc/configuration.xml'' = None \<and>
   ''/tmp/inst'' \<notin> dirs (snd (project_delete demo_collab True (Some ''/tmp/inst'')
     ''http://x/source'' demo_world)) \<and>
   files (snd (project_delete demo_collab True (Some ''/tmp/inst'') ''http://x/source''
     demo_world)) ''/src/foo/a.c'' = Some ''x'' \<and>
   ''/src/foo'' \<in> dirs (snd (project_delete demo_collab True (Some ''/tmp/inst'')
     ''http://x/source'' demo_world))"
  by (simp add: project_delete_def call_delete_project_def call_get_config_value_def rmtree_def
      run_defs path_defs new_events_def demo_defs Let_def)

subsection \<open>The value of the source root\<close>

text \<open>
  C9. Where the lookup of \<^verbatim>\<open>sourceRoot\<close> returns a list that is not empty,
  the directory a real run hands to \<^verbatim>\<open>rmtree\<close> is the join of the first
  element, stripped of trailing whitespace, with the name of the project
  (nothing is removed when the stripped element is empty). The elements after
  the first have no influence on anything \<^verbatim>\<open>project_delete\<close> does: the call
  gives the same result and the same world with any rest of the list as with
  none.
\<close>

theorem project_delete_first_value_only:
  assumes "name \<noteq> []"
    and "delete_project c name uri (svc w) = (Return (), s)"
    and "get_config_value c ''sourceRoot'' uri s = Return (Some (v # vs))"
  shows "removed (new_events w (snd (project_delete c True (Some name) uri w))) =
           (if rstrip v = [] then [] else [path_join (rstrip v) [name]]) \<and>
         project_delete (c\<lparr>get_config_value := \<lambda>k u t. Return (Some (v # vs'))\<rparr>) doit p uri w =
         project_delete (c\<lparr>get_config_value := \<lambda>k u t. Return (Some [v])\<rparr>) doit p uri w"
proof
  have d: "if True then delete_project c name uri (svc w) = (Return (), s) else s = svc w"
    using assms(2) by simp
  show "removed (new_events w (snd (project_delete c True (Some name) uri w))) =
           (if rstrip v = [] then [] else [path_join (rstrip v) [name]])"
    unfolding project_delete_lookup [OF assms(1) d assms(3)]
    by (simp add: rmtree_trace new_events_def Let_def)
next
  show "project_delete (c\<lparr>get_config_value := \<lambda>k u t. Return (Some (v # vs'))\<rparr>) doit p uri w =
        project_delete (c\<lparr>get_config_value := \<lambda>k u t. Return (Some [v])\<rparr>) doit p uri w"
    by (simp add: project_delete_def prog_defs call_delete_project_def call_get_config_value_def
        Let_def split: option.split result.split prod.split)
qed

theorem project_delete_first_value_only_witness:
  "removed (new_events demo_world
     (snd (project_delete demo_collab True (Some ''foo'') ''http://x/source'' demo_world))) =
     [''/src/foo''] \<and>
   project_delete
     (demo_collab\<lparr>get_config_value := \<lambda>k u t. Return (Some [''/src  '', ''/other''])\<rparr>)
     True (Some ''foo'') ''http://x/source'' demo_world =
   project_delete (demo_collab\<lparr>get_config_value := \<lambda>k u t. Return (Some [''/src  ''])\<rparr>)
     True (Some ''foo'') ''http://x/source'' demo_world"
proof -
  have n: "''foo'' \<noteq> []" by simp
  have d: "delete_project demo_collab ''foo'' ''http://x/source'' (svc demo_world) = (Return (), [])"
    by (simp add: demo_collab_def demo_world_def)
  have g: "get_config_value demo_collab ''sourceRoot'' ''http://x/source'' [] =
             Return (Some [''/src  '', ''/other''])"
    by (simp add: demo_collab_def)
  have r: "rstrip ''/src  '' = ''/src''"
    by (simp add: rstrip_def isspace_def)
  have j: "path_join ''/src'' [''foo''] = ''/src/foo''"
    by (simp add: path_join_def join2_def)
  show ?thesis
    using project_delete_first_value_only [OF n d g, of "[''/other'']" True "Some ''foo''"] r j
    by simp
qed

subsection \<open>A dry run of the refresh with a read-only configuration\<close>

text \<open>
  C10. A dry run of \<^verbatim>\<open>config_refresh\<close> with a read-only configuration, for
  an instance whose configuration file exists, returns normally. Nothing is
  fetched, the merge command is logged and not run, the merged output is neither
  written nor installed, so the missing result of \<^verbatim>\<open>exec_command\<close> is never
  joined; the two temporary files are created and closed, and the files and the
  web application are as they were.
\<close>

theorem config_refresh_dry_run_merge:
  assumes "isfile (get_config_file basedir) w" and "r \<noteq> []"
  shows "fst (config_refresh c False basedir uri cm (Some r) w) = Return () \<and>
         new_events w (snd (config_refresh c False basedir uri cm (Some r) w)) =
           [TmpCreate (tmp_next w),
            Log Debug (Msg ''Temporary file for current config: {}'' [P (Temp (tmp_next w))]),
            Log Info (Msg ''Refreshing configuration (merging with read-only config)'' []),
            Log Info (CmdObj [Named cm, Named r, Temp (tmp_next w)]),
            TmpCreate (Suc (tmp_next w)),
            Log Debug (Msg ''Temporary file for merged config: {}''
                         [P (Temp (Suc (tmp_next w)))]),
            TmpClose (Suc (tmp_next w)),
            TmpClose (tmp_next w)] \<and>
         files (snd (config_refresh c False basedir uri cm (Some r) w)) = files w \<and>
         svc (snd (config_refresh c False basedir uri cm (Some r) w)) = svc w"
  using assms
  by (simp add: config_refresh_def prog_defs Let_def with_tmp_def tmp_create_def tmp_close_def
      exec_command_def new_events_def)

theorem config_refresh_dry_run_merge_witness:
  "fst (config_refresh demo_collab False ''/tmp/inst'' ''http://x/source'' ''ConfigMerge''
          (Some ''/ro.xml'') demo_world) = Return () \<and>
   trace (snd (config_refresh demo_collab False ''/tmp/inst'' ''http://x/source'' ''ConfigMerge''
          (Some ''/ro.xml'') demo_world)) =
     [TmpCreate 0,
      Log Debug (Msg ''Temporary file for current config: {}'' [P (Temp 0)]),
      Log Info (Msg ''Refreshing configuration (merging with read-only config)'' []),
      Log Info (CmdObj [Named ''ConfigMerge'', Named ''/ro.xml'', Temp 0]),
      TmpCreate 1,
      Log Debug (Msg ''Temporary file for merged config: {}'' [P (Temp 1)]),
      TmpClose 1,
      TmpClose 0]"
proof -
  have e: "isfile (get_config_file ''/tmp/inst'') demo_world"
    by (simp add: demo_defs)
  have r: "''/ro.xml'' \<noteq> []"
    by simp
  have t: "trace demo_world = []" and n: "tmp_next demo_world = 0"
    by (simp_all add: demo_world_def)
  show ?thesis
    using config_refresh_dry_run_merge [OF e r, of demo_collab "''http://x/source''" "''ConfigMerge''"]
    by (simp add: new_events_def t n)
qed

text \<open>
  C10 as it is stated does not ask for the configuration file: without the file
  the same dry run ends in the exit of the first check of \<^verbatim>\<open>config_refresh\<close>.
\<close>

theorem config_refresh_dry_run_merge_counterexample:
  "fst (config_refresh demo_collab False ''/nowhere'' ''http://x/source'' ''ConfigMerge''
          (Some ''/ro.xml'') demo_world) = Exit 1"
  by (simp add: config_refresh_def run_defs Let_def demo_defs)

subsection \<open>Dry runs\<close>

lemma project_delete_dry_run:
  "(snd (project_delete c False p uri w))\<lparr>trace := trace w\<rparr> = w \<and>
   take (length (trace w)) (trace (snd (project_delete c False p uri w))) = trace w \<and>
   list_all is_log (removeAll (Net (GetConfigValue ''sourceRoot'' uri))
     (new_events w (snd (project_delete c False p uri w))))"
  by (simp add: project_delete_def prog_defs call_get_config_value_def Let_def new_events_def
      split: option.split list.split result.split)

lemma config_refresh_dry_run:
  "files (snd (config_refresh c False basedir uri cm ro w)) = files w \<and>
   dirs (snd (config_refresh c False basedir uri cm ro w)) = dirs w \<and>
   svc (snd (config_refresh c False basedir uri cm ro w)) = svc w \<and>
   take (length (trace w)) (trace (snd (config_refresh c False basedir uri cm ro w))) = trace w \<and>
   list_all (\<lambda>e. is_log e \<or> is_tmp_scope e)
     (new_events w (snd (config_refresh c False basedir uri cm ro w)))"
  by (cases "isfile (get_config_file basedir) w"; cases "truthy ro")
     (simp_all add: config_refresh_def prog_defs Let_def with_tmp_def tmp_create_def tmp_close_def
       exec_command_def install_config_def new_events_def)

text \<open>
  C1, as the code has it. In a dry run \<^verbatim>\<open>project_add\<close>,
  \<^verbatim>\<open>install_config\<close> and \<^verbatim>\<open>exec_command\<close> write one log line and do
  nothing else. \<^verbatim>\<open>project_delete\<close> changes nothing but the trace, and the
  trace gets log lines and the lookup of \<^verbatim>\<open>sourceRoot\<close>, which the source
  calls whatever \<open>doit\<close> is. \<^verbatim>\<open>config_refresh\<close> leaves the files, the
  directories and the web application as they were, and the trace gets log lines
  and the creation and closing of the temporary files, which the source opens
  whatever \<open>doit\<close> is. No project is added or deleted, no configuration is
  fetched, no command is run, nothing is written, copied or removed. The same
  holds for the whole program when \<^verbatim>\<open>--noop\<close> is given: the files, the
  directories and the web application are as they were, and the trace gets only
  events of a dry run.
\<close>

theorem dry_run_effects:
  "project_add c False project uri w =
     (Return (), w\<lparr>trace := trace w @ [Log Info (Msg ''Adding project {}'' [S project])]\<rparr>) \<and>
   install_config False src dst w =
     (Return (),
      w\<lparr>trace := trace w @ [Log Debug (Msg ''Not copying {} to {}'' [P src, P dst])]\<rparr>) \<and>
   exec_command c False cmd msg w =
     (Return None, w\<lparr>trace := trace w @ [Log Info (CmdObj cmd)]\<rparr>) \<and>
   (snd (project_delete c False p uri w))\<lparr>trace := trace w\<rparr> = w \<and>
   take (length (trace w)) (trace (snd (project_delete c False p uri w))) = trace w \<and>
   list_all is_log (removeAll (Net (GetConfigValue ''sourceRoot'' uri))
     (new_events w (snd (project_delete c False p uri w)))) \<and>
   files (snd (config_refresh c False basedir uri cm ro w)) = files w \<and>
   dirs (snd (config_refresh c False basedir uri cm ro w)) = dirs w \<and>
   svc (snd (config_refresh c False basedir uri cm ro w)) = svc w \<and>
   take (length (trace w)) (trace (snd (config_refresh c False basedir uri cm ro w))) = trace w \<and>
   list_all (\<lambda>e. is_log e \<or> is_tmp_scope e)
     (new_events w (snd (config_refresh c False basedir uri cm ro w))) \<and>
   dry w (snd (main c (a\<lparr>arg_noop := False\<rparr>) w))"
  by (simp add: project_add_def install_config_def exec_command_def prog_defs
      project_delete_dry_run config_refresh_dry_run dry_progD [OF dry_prog_main])

theorem dry_run_effects_witness:
  "project_add demo_collab False ''bar'' ''http://x/source'' demo_world =
     (Return (), demo_world\<lparr>trace := [Log Info (Msg ''Adding project {}'' [S ''bar''])]\<rparr>) \<and>
   exec_command demo_collab False [Named ''ConfigMerge''] ''cannot merge configuration''
       demo_world =
     (Return None, demo_world\<lparr>trace := [Log Info (CmdObj [Named ''ConfigMerge''])]\<rparr>) \<and>
   (snd (project_delete demo_collab False (Some ''foo'') ''http://x/source'' demo_world))
       \<lparr>trace := []\<rparr> = demo_world \<and>
   files (snd (config_refresh demo_collab False ''/tmp/inst'' ''http://x/source''
                 ''ConfigMerge'' None demo_world)) = files demo_world"
proof -
  have t: "trace demo_world = []"
    by (simp add: demo_world_def)
  show ?thesis
    using dry_run_effects [of demo_collab "''bar''" "''http://x/source''" demo_world
        "Temp 0" "Named ''x''" "[Named ''ConfigMerge'']" "''cannot merge configuration''"
        "Some ''foo''" "''/tmp/inst''" "''ConfigMerge''" None demo_args]
    by (simp only: t append_Nil)
qed

text \<open>
  C1 as it is stated fails on both counts: the dry run of
  \<^verbatim>\<open>project_delete\<close> calls the web application, and the dry run of
  \<^verbatim>\<open>config_refresh\<close> creates a file.
\<close>

theorem dry_run_effects_counterexample:
  "Net (GetConfigValue ''sourceRoot'' ''http://x/source'')
     \<in> set (trace (snd (project_delete demo_collab False (Some ''foo'') ''http://x/source''
                          demo_world))) \<and>
   TmpCreate 0
     \<in> set (trace (snd (config_refresh demo_collab False ''/tmp/inst'' ''http://x/source''
                          ''ConfigMerge'' None demo_world)))"
  by (simp add: project_delete_def config_refresh_def run_defs call_get_config_value_def Let_def
      with_tmp_def tmp_create_def tmp_close_def install_config_def demo_defs)

subsection \<open>What a refresh installs\<close>

text \<open>
  A real run of \<^verbatim>\<open>config_refresh\<close> without a read-only configuration that
  returns normally, for a web application that serves \<open>text\<close>. The source
  writes the text to the temporary file and copies the file by name without
  flushing or closing the file object in between. A text longer than the buffer
  has reached the file by then and is installed; a text that fits into the buffer
  is still in the buffer, and the configuration file is left empty.
\<close>

lemma config_refresh_installed:
  assumes "get_configuration c uri (svc w) = Return (Some text)"
    and "\<not> truthy ro"
    and "fst (config_refresh c True basedir uri cm ro w) = Return ()"
  shows "files (snd (config_refresh c True basedir uri cm ro w)) (get_config_file basedir) =
           Some (if length (utf8 text) \<le> buffer_size w then [] else utf8 text)"
proof -
  have 1: "isfile (get_config_file basedir) w"
  proof (rule ccontr)
    assume "\<not> isfile (get_config_file basedir) w"
    then have "fst (config_refresh c True basedir uri cm ro w) = Exit 1"
      by (simp add: config_refresh_def prog_defs Let_def)
    with assms(3) show False by simp
  qed
  have 2: "text \<noteq> []"
  proof
    assume "text = []"
    with 1 assms(1) have "fst (config_refresh c True basedir uri cm ro w) = Exit 1"
      by (simp add: config_refresh_def call_get_configuration_def prog_defs Let_def)
    with assms(3) show False by simp
  qed
  have 3: "get_config_file basedir \<notin> dirs w"
  proof
    assume "get_config_file basedir \<in> dirs w"
    with 1 2 assms(1,2) have "fst (config_refresh c True basedir uri cm ro w) = Exit 1"
      by (simp add: refresh_defs prog_defs Let_def)
    with assms(3) show False by simp
  qed
  have 4: "get_config_file basedir \<notin> unwritable w"
  proof
    assume "get_config_file basedir \<in> unwritable w"
    with 1 2 3 assms(1,2) have "fst (config_refresh c True basedir uri cm ro w) = Exit 1"
      by (simp add: refresh_defs prog_defs Let_def)
    with assms(3) show False by simp
  qed
  from 1 2 3 4 assms(1,2) show ?thesis
    by (simp add: refresh_defs prog_defs Let_def)
qed

lemma config_refresh_installed_long:
  assumes "get_configuration c uri (svc w) = Return (Some text)"
    and "\<not> truthy ro"
    and "fst (config_refresh c True basedir uri cm ro w) = Return ()"
    and "buffer_size w < length (utf8 text)"
  shows "files (snd (config_refresh c True basedir uri cm ro w)) (get_config_file basedir) =
           Some (utf8 text)"
  using config_refresh_installed [OF assms(1-3)] assms(4) by simp

text \<open>
  The same for a refresh with a read-only configuration. The merge tool is run
  on the disk as it is after the write to the first temporary file; \<open>out\<close> is
  its output.
\<close>

lemma staged_on_disk:
  "disk_view fs (ts(n \<mapsto> buffered_write bs d \<lparr>on_disk = [], pending = []\<rparr>)) (Temp n) =
     Some (if length d \<le> bs then [] else d)"
  by (simp add: disk_view_def buffered_write_def)

lemma on_disk_buffered_write:
  "on_disk (buffered_write bs d \<lparr>on_disk = [], pending = []\<rparr>) =
     (if length d \<le> bs then [] else d)"
  by (simp add: buffered_write_def)

lemma config_refresh_merged:
  assumes "get_configuration c uri (svc w) = Return (Some text)"
    and "r \<noteq> []"
    and "run_command c [Named cm, Named r, Temp (tmp_next w)]
           (disk_view (files w)
              ((tmpfiles w)(tmp_next w \<mapsto>
                 buffered_write (buffer_size w) (utf8 text) \<lparr>on_disk = [], pending = []\<rparr>))) =
         (st, rc, out)"
    and "fst (config_refresh c True basedir uri cm (Some r) w) = Return ()"
  shows "st = FINISHED \<and> rc = 0 \<and>
         files (snd (config_refresh c True basedir uri cm (Some r) w)) (get_config_file basedir) =
           Some (if length (utf8 (join_lines out)) \<le> buffer_size w then []
                 else utf8 (join_lines out))"
proof -
  note defs = config_refresh_def with_tmp_def tmp_create_def tmp_close_def tmp_write_def
    write_joined_def install_config_def copyfile_def read_disk_def
    write_disk_def is_dir_path_def write_denied_def call_get_configuration_def exec_command_def
  have 1: "isfile (get_config_file basedir) w"
  proof (rule ccontr)
    assume "\<not> isfile (get_config_file basedir) w"
    then have "fst (config_refresh c True basedir uri cm (Some r) w) = Exit 1"
      by (simp add: config_refresh_def prog_defs Let_def)
    with assms(4) show False by simp
  qed
  have 2: "text \<noteq> []"
  proof
    assume "text = []"
    with 1 assms(1) have "fst (config_refresh c True basedir uri cm (Some r) w) = Exit 1"
      by (simp add: config_refresh_def call_get_configuration_def prog_defs Let_def)
    with assms(4) show False by simp
  qed
  have 3: "st = FINISHED \<and> rc = 0"
  proof (rule ccontr)
    assume "\<not> (st = FINISHED \<and> rc = 0)"
    with 1 2 assms(1-3) have "fst (config_refresh c True basedir uri cm (Some r) w) = Exit 1"
      by (auto simp add: defs prog_defs Let_def)
    with assms(4) show False by simp
  qed
  have 4: "get_config_file basedir \<notin> dirs w"
  proof
    assume "get_config_file basedir \<in> dirs w"
    with 1 2 3 assms(1-3) have "fst (config_refresh c True basedir uri cm (Some r) w) = Exit 1"
      by (simp add: defs disk_view_def prog_defs Let_def)
    with assms(4) show False by simp
  qed
  have 5: "get_config_file basedir \<notin> unwritable w"
  proof
    assume "get_config_file basedir \<in> unwritable w"
    with 1 2 3 4 assms(1-3) have "fst (config_refresh c True basedir uri cm (Some r) w) = Exit 1"
      by (simp add: defs disk_view_def prog_defs Let_def)
    with assms(4) show False by simp
  qed
  from 1 2 3 4 5 assms(1-3)
  have "files (snd (config_refresh c True basedir uri cm (Some r) w)) (get_config_file basedir) =
           Some (if length (utf8 (join_lines out)) \<le> buffer_size w then []
                 else utf8 (join_lines out))"
    by (simp add: defs disk_view_def on_disk_buffered_write prog_defs Let_def)
  with 3 show ?thesis by simp
qed

text \<open>
  C2. The refresh of the instance \<^verbatim>\<open>/tmp/inst\<close> from a web application that
  serves the nine characters \<^verbatim>\<open><config/>\<close>, with a buffer of 8192 bytes:
  \<^verbatim>\<open>config_refresh\<close> returns normally, and the configuration file is empty
  afterwards, not the text that was fetched.
\<close>

theorem config_refresh_small_config:
  "get_configuration demo_collab ''http://x/source'' (svc demo_world) =
     Return (Some ''<config/>'') \<and>
   fst (config_refresh demo_collab True ''/tmp/inst'' ''http://x/source'' ''ConfigMerge'' None
          demo_world) = Return () \<and>
   files (snd (config_refresh demo_collab True ''/tmp/inst'' ''http://x/source'' ''ConfigMerge''
          None demo_world)) ''/tmp/inst/etc/configuration.xml'' = Some []"
  by (simp add: refresh_defs run_defs demo_defs Let_def)

text \<open>
  C3. The same refresh with the read-only configuration \<^verbatim>\<open>/ro.xml\<close>. The
  merge tool is run with the read-only path and the name of the temporary file as
  its arguments, in this order. The tool of this installation puts what it reads
  from the temporary file between two tags: its output shows that the file was
  empty when the tool read it, since the text was still in the buffer. The output
  of the tool is written to the second temporary file in the same way, and the
  configuration file is empty afterwards, not the output of the tool.
\<close>

theorem config_refresh_small_merge:
  "fst (config_refresh demo_collab True ''/tmp/inst'' ''http://x/source'' ''ConfigMerge''
          (Some ''/ro.xml'') demo_world) = Return () \<and>
   trace (snd (config_refresh demo_collab True ''/tmp/inst'' ''http://x/source'' ''ConfigMerge''
          (Some ''/ro.xml'') demo_world)) =
     [Net (GetConfiguration ''http://x/source''),
      TmpCreate 0,
      Log Debug (Msg ''Temporary file for current config: {}'' [P (Temp 0)]),
      TmpWrite 0 ''<config/>'',
      Log Info (Msg ''Refreshing configuration (merging with read-only config)'' []),
      Exec [Named ''ConfigMerge'', Named ''/ro.xml'', Temp 0],
      TmpCreate 1,
      Log Debug (Msg ''Temporary file for merged config: {}'' [P (Temp 1)]),
      TmpWrite 1 ''<merged></merged>'',
      Log Debug (Msg ''Copying {} to {}''
                   [P (Temp 1), P (Named ''/tmp/inst/etc/configuration.xml'')]),
      CopyFile (Temp 1) (Named ''/tmp/inst/etc/configuration.xml''),
      TmpClose 1,
      TmpClose 0] \<and>
   files (snd (config_refresh demo_collab True ''/tmp/inst'' ''http://x/source'' ''ConfigMerge''
          (Some ''/ro.xml'') demo_world)) ''/tmp/inst/etc/configuration.xml'' = Some []"
  by (simp add: refresh_defs run_defs demo_defs Let_def)

end
